theory Spec2Isabelle
  imports Main "HOL-Library.List_Lexorder" "HOL-Library.Char_ord"
begin

section \<open>The text-extraction pipeline (text_extract.py)\<close>

text \<open>
  The module keeps raw bill documents under \<^verbatim>\<open>raw/\<close>, extracted text under
  \<^verbatim>\<open>text/\<close>, and SearchableBill rows in the database. Everything the code touches
  outside its own variables is a field of one record, passed in and returned updated:
  the version of click that is installed, the file system (a map from path to content),
  the URLs requested from the network in order, the paths written in order, the lines
  printed, and the database tables.
  Directories are not tracked: \<^verbatim>\<open>os.makedirs\<close> (whose OSError the source discards)
  leaves the file map as it is.
\<close>

subsection \<open>Data\<close>

text \<open>Exceptions that leave a function of the module (those it catches are branches).\<close>

datatype error =
    KeyError string
  | IndexError
  | UnboundLocalError string
  | AttributeError string
  | TypeError string
  | IntegrityError string
  | CollaboratorError string

text \<open>
  The metadata dictionary handed to \<^verbatim>\<open>extract_text\<close>, and a row of the sample CSV
  (the \<^verbatim>\<open>version\<close> dictionary of \<^verbatim>\<open>download\<close>), which has the same four keys
  and four more.
\<close>

record metadata =
  m_url :: string
  m_media_type :: string
  m_title :: string
  m_jurisdiction_id :: string

record version_row = metadata +
  r_id :: string
  r_session :: string
  r_identifier :: string
  r_note :: string

text \<open>Database rows: a link of a version, a version of a bill, a bill.\<close>

record link =
  l_url :: string
  l_media_type :: string

record bill_version =
  v_date :: string
  v_note :: string
  v_links :: "link list"

record bill =
  b_id :: nat
  b_title :: string
  b_jurisdiction_id :: string
  b_versions :: "bill_version list"

datatype search_vector = NoVector | Weighted string string

record searchable_bill =
  sb_id :: nat
  sb_bill :: nat
  sb_version_link :: link
  sb_all_titles :: string
  sb_raw_text :: string
  sb_is_error :: bool
  sb_search_vector :: search_vector

datatype status = Green | Yellow | Red

text \<open>What the module prints, one constructor per call site.\<close>

datatype out_line =
    Message string
  | ExceptionLine
  | ItemLine string "string option" nat
  | Processed nat nat nat status
  | Selected nat
  | Updating nat

text \<open>
  The click library that is installed: the two major versions differ in what
  \<^verbatim>\<open>click.secho\<close> does with a message that is not a string.
\<close>

datatype click_version = Click7 | Click8

record world =
  click :: click_version
  files :: "string \<rightharpoonup> string"
  requests :: "string list"
  writes :: "string list"
  echoed :: "out_line list"
  bills :: "bill list"
  searchable :: "searchable_bill list"
  next_id :: nat
  vector_updates :: "nat option list list"

subsection \<open>Collaborators\<close>

text \<open>
  The network is a function from a URL to the content served, \<open>None\<close> where the request
  raises. \<^verbatim>\<open>scraper.get(url).content\<close> records the request and returns the content;
  \<^verbatim>\<open>scraper.urlretrieve(url, filename)\<close> makes the request first and only then
  opens \<^verbatim>\<open>filename\<close> and writes the content to it, so a request that raises leaves
  the file system alone.
\<close>

definition scraper_get :: "(string \<Rightarrow> string option) \<Rightarrow> string \<Rightarrow> world \<Rightarrow> string option \<times> world" where
  "scraper_get fetch u w = (fetch u, w\<lparr>requests := requests w @ [u]\<rparr>)"

definition urlretrieve ::
  "(string \<Rightarrow> string option) \<Rightarrow> string \<Rightarrow> string \<Rightarrow> world \<Rightarrow> string option \<times> world" where
  "urlretrieve fetch u filename w =
     (case scraper_get fetch u w of
        (None, w1) \<Rightarrow> (None, w1)
      | (Some content, w1) \<Rightarrow>
          (Some content,
           w1\<lparr>files := (files w1)(filename \<mapsto> content), writes := writes w1 @ [filename]\<rparr>))"

text \<open>
  \<^verbatim>\<open>click.secho(message, file, ...)\<close> first styles the message and then writes it.
  Styling joins the message with the colour codes: click 7 raises TypeError when the
  message is not a string, click 8 converts it with \<^verbatim>\<open>str\<close> first. The second
  positional parameter is the stream the message is written to, standard output when it
  is left out; a string in that place has no \<^verbatim>\<open>write\<close> method, and the call raises
  AttributeError.
\<close>

datatype message = Str out_line | NonStr out_line

datatype stream = Stdout | NotAStream string

definition print_line :: "out_line \<Rightarrow> world \<Rightarrow> world" where
  "print_line line w = w\<lparr>echoed := echoed w @ [line]\<rparr>"

fun style :: "message \<Rightarrow> click_version \<Rightarrow> error + out_line" where
  "style (Str line) v = Inr line"
| "style (NonStr line) Click8 = Inr line"
| "style (NonStr line) Click7 = Inl (TypeError ''join'')"

definition secho :: "message \<Rightarrow> stream \<Rightarrow> world \<Rightarrow> (error + unit) \<times> world" where
  "secho message file w =
     (case style message (click w) of
        Inl e \<Rightarrow> (Inl e, w)
      | Inr line \<Rightarrow>
          (case file of
             Stdout \<Rightarrow> (Inr (), print_line line w)
           | NotAStream s \<Rightarrow> (Inl (AttributeError ''write''), w)))"

subsection \<open>download\<close>

definition MIMETYPES :: "string \<rightharpoonup> string" where
  "MIMETYPES = map_of
     [(''application/pdf'', ''pdf''),
      (''text/html'', ''html''),
      (''application/msword'', ''doc''),
      (''application/rtf'', ''rtf''),
      (''application/vnd.openxmlformats-officedocument.wordprocessingml.document'', ''docx'')]"

text \<open>
  Lines 36 to 38 of \<^verbatim>\<open>download\<close>: the abbreviation (\<^verbatim>\<open>jid_to_abbr\<close> belongs to
  another module and is a parameter, \<open>None\<close> where it raises), the extension, and the
  formatted path.
\<close>

definition cache_path :: "(string \<Rightarrow> string option) \<Rightarrow> version_row \<Rightarrow> error + string" where
  "cache_path jid_to_abbr version =
     (case jid_to_abbr (m_jurisdiction_id version) of
        None \<Rightarrow> Inl (CollaboratorError ''jid_to_abbr'')
      | Some abbr \<Rightarrow>
          (case MIMETYPES (m_media_type version) of
             None \<Rightarrow> Inl (KeyError (m_media_type version))
           | Some ext \<Rightarrow>
               Inr (''raw/'' @ abbr @ ''/'' @ r_session version @ ''-'' @ r_identifier version
                    @ ''-'' @ r_note version @ ''.'' @ ext)))"

text \<open>
  The result \<^verbatim>\<open>(None, None)\<close> is \<open>None\<close>, the result \<^verbatim>\<open>(filename, bytes)\<close> is
  \<open>Some (filename, bytes)\<close>. In the handler of the failed request the URL is passed to
  \<^verbatim>\<open>click.secho\<close> as its second positional argument.
\<close>

definition download ::
  "(string \<Rightarrow> string option) \<Rightarrow> (string \<Rightarrow> string option) \<Rightarrow> version_row \<Rightarrow> world
     \<Rightarrow> (error + (string \<times> string) option) \<times> world" where
  "download jid_to_abbr fetch version w =
     (case cache_path jid_to_abbr version of
        Inl e \<Rightarrow> (Inl e, w)
      | Inr filename \<Rightarrow>
          (case files w filename of
             None \<Rightarrow>
               (case urlretrieve fetch (m_url version) filename w of
                  (None, w1) \<Rightarrow>
                    (case secho (Str (Message ''could not fetch'')) (NotAStream (m_url version)) w1 of
                       (Inl e, w2) \<Rightarrow> (Inl e, w2)
                     | (Inr u, w2) \<Rightarrow> (Inr None, w2))
                | (Some content, w1) \<Rightarrow> (Inr (Some (filename, content)), w1))
           | Some content \<Rightarrow> (Inr (Some (filename, content)), w)))"

subsection \<open>extract_to_file and sample\<close>

text \<open>
  \<^verbatim>\<open>s.replace(old, new)\<close> for a non-empty \<^verbatim>\<open>old\<close>: every occurrence, left to
  right, without overlap.
\<close>

fun str_replace :: "string \<Rightarrow> string \<Rightarrow> string \<Rightarrow> string" where
  "str_replace old new [] = []"
| "str_replace old new (c # cs) =
     (if old \<noteq> [] \<and> take (length old) (c # cs) = old
      then new @ str_replace old new (drop (length old - 1) cs)
      else c # str_replace old new cs)"

text \<open>
  \<^verbatim>\<open>extract_text\<close> belongs to another module and is a parameter: \<open>None\<close> where it
  raises, the text otherwise. No handler surrounds the call here.
\<close>

definition extract_to_file ::
  "(string \<Rightarrow> version_row \<Rightarrow> string option) \<Rightarrow> string \<Rightarrow> string \<Rightarrow> version_row \<Rightarrow> world
     \<Rightarrow> (error + string option \<times> nat) \<times> world" where
  "extract_to_file extract_text filename data version w =
     (case extract_text data version of
        None \<Rightarrow> (Inl (CollaboratorError ''extract_text''), w)
      | Some text \<Rightarrow>
          if text = [] then (Inr (None, 0), w)
          else
            (let text_filename = str_replace ''raw/'' ''text/'' filename @ ''.txt''
             in (Inr (Some text_filename, length text),
                 w\<lparr>files := (files w)(text_filename \<mapsto> text),
                   writes := writes w @ [text_filename]\<rparr>)))"

text \<open>
  The loop of \<^verbatim>\<open>sample\<close> over the rows of \<^verbatim>\<open>raw/<state>.csv\<close>, with its three
  counters \<^verbatim>\<open>(count, missing, empty)\<close>.
\<close>

fun sample_loop ::
  "(string \<Rightarrow> string option) \<Rightarrow> (string \<Rightarrow> string option) \<Rightarrow> (string \<Rightarrow> version_row \<Rightarrow> string option)
     \<Rightarrow> bool \<Rightarrow> version_row list \<Rightarrow> nat \<times> nat \<times> nat \<Rightarrow> world
     \<Rightarrow> (error + nat \<times> nat \<times> nat) \<times> world" where
  "sample_loop jid_to_abbr fetch extract_text quiet [] counters w = (Inr counters, w)"
| "sample_loop jid_to_abbr fetch extract_text quiet (version # rest) (count, missing, empty') w =
     (case download jid_to_abbr fetch version w of
        (Inl e, w1) \<Rightarrow> (Inl e, w1)
      | (Inr None, w1) \<Rightarrow>
          sample_loop jid_to_abbr fetch extract_text quiet rest (count + 1, missing + 1, empty') w1
      | (Inr (Some (filename, data)), w1) \<Rightarrow>
          (case extract_to_file extract_text filename data version w1 of
             (Inl e, w2) \<Rightarrow> (Inl e, w2)
           | (Inr (text_filename, n_bytes), w2) \<Rightarrow>
               sample_loop jid_to_abbr fetch extract_text quiet rest
                 (count + 1, missing, if n_bytes = 0 then empty' + 1 else empty')
                 (if quiet then w2 else print_line (ItemLine filename text_filename n_bytes) w2)))"

text \<open>Lines 208 to 212: the status, from the counters.\<close>

definition sample_status :: "nat \<Rightarrow> nat \<Rightarrow> status" where
  "sample_status missing empty' =
     (if 0 < empty' \<or> 10 < missing then Red else if 0 < missing then Yellow else Green)"

text \<open>
  \<^verbatim>\<open>sample\<close>, given the rows of the CSV file as they are after the optional resample.
  The result is \<open>Some 1\<close> for \<^verbatim>\<open>return 1\<close> and \<open>None\<close> where the function falls off
  its end.
\<close>

definition sample ::
  "(string \<Rightarrow> string option) \<Rightarrow> (string \<Rightarrow> string option) \<Rightarrow> (string \<Rightarrow> version_row \<Rightarrow> string option)
     \<Rightarrow> version_row list \<Rightarrow> bool \<Rightarrow> world \<Rightarrow> (error + nat option) \<times> world" where
  "sample jid_to_abbr fetch extract_text rows quiet w =
     (case sample_loop jid_to_abbr fetch extract_text quiet rows (0, 0, 0) w of
        (Inl e, w1) \<Rightarrow> (Inl e, w1)
      | (Inr (count, missing, empty'), w1) \<Rightarrow>
          (let status = sample_status missing empty'
           in (Inr (if status = Red then Some 1 else None),
               print_line (Processed count missing empty' status) w1)))"

subsection \<open>update_bill\<close>

text \<open>
  \<^verbatim>\<open>order_by("-date", "-note")\<close>: descending by date, then by note. Both columns are
  strings; they are compared character by character. The sort is an insertion sort, so
  rows with the same key keep some order that nothing here depends on.
\<close>

definition precedes :: "bill_version \<Rightarrow> bill_version \<Rightarrow> bool" where
  "precedes a b = (v_date b < v_date a \<or> (v_date a = v_date b \<and> v_note b \<le> v_note a))"

fun insert_version :: "bill_version \<Rightarrow> bill_version list \<Rightarrow> bill_version list" where
  "insert_version v [] = [v]"
| "insert_version v (x # xs) = (if precedes v x then v # x # xs else x # insert_version v xs)"

fun order_by_date_note :: "bill_version list \<Rightarrow> bill_version list" where
  "order_by_date_note [] = []"
| "order_by_date_note (v # vs) = insert_version v (order_by_date_note vs)"

text \<open>Line 78: the first row of the ordered versions, IndexError when there is none.\<close>

definition latest_version :: "bill \<Rightarrow> error + bill_version" where
  "latest_version b =
     (case order_by_date_note (b_versions b) of [] \<Rightarrow> Inl IndexError | v # vs \<Rightarrow> Inr v)"

definition link_metadata :: "bill \<Rightarrow> link \<Rightarrow> metadata" where
  "link_metadata b lk =
     \<lparr>m_url = l_url lk, m_media_type = l_media_type lk, m_title = b_title b,
      m_jurisdiction_id = b_jurisdiction_id b\<rparr>"

text \<open>
  The loop of lines 89 to 111. Its variables are \<^verbatim>\<open>is_error\<close>, \<^verbatim>\<open>raw_text\<close> and
  the loop variable \<^verbatim>\<open>link\<close>, which is unbound (\<open>None\<close>) until the first iteration
  binds it. A request that raises goes on to the next link in silence; an extraction
  that raises is handled by \<^verbatim>\<open>click.secho(e, fg="red")\<close>, whose message is the
  exception object: where that call prints, the loop goes on, and where it raises, the
  exception leaves the loop. \<^verbatim>\<open>raw_text\<close> is assigned only when the extraction
  returns.
\<close>

fun link_loop ::
  "(string \<Rightarrow> string option) \<Rightarrow> (string \<Rightarrow> metadata \<Rightarrow> string option) \<Rightarrow> bill \<Rightarrow> link list
     \<Rightarrow> bool \<times> string \<times> link option \<Rightarrow> world
     \<Rightarrow> (error + bool \<times> string \<times> link option) \<times> world" where
  "link_loop fetch extract_text b [] vars w = (Inr vars, w)"
| "link_loop fetch extract_text b (lk # rest) (is_error, raw_text, bound) w =
     (case scraper_get fetch (l_url lk) w of
        (None, w1) \<Rightarrow> link_loop fetch extract_text b rest (is_error, raw_text, Some lk) w1
      | (Some data, w1) \<Rightarrow>
          (case extract_text data (link_metadata b lk) of
             None \<Rightarrow>
               (case secho (NonStr ExceptionLine) Stdout w1 of
                  (Inl e, w2) \<Rightarrow> (Inl e, w2)
                | (Inr u, w2) \<Rightarrow>
                    link_loop fetch extract_text b rest (is_error, raw_text, Some lk) w2)
           | Some text \<Rightarrow>
               if text \<noteq> [] then (Inr (False, text, Some lk), w1)
               else link_loop fetch extract_text b rest (is_error, text, Some lk) w1))"

text \<open>
  A bill has at most one SearchableBill (the query of \<^verbatim>\<open>update\<close> reads it as
  \<^verbatim>\<open>searchable\<close>, one object): creating a second one raises IntegrityError.
\<close>

definition has_searchable :: "world \<Rightarrow> bill \<Rightarrow> bool" where
  "has_searchable w b = list_ex (\<lambda>sb. sb_bill sb = b_id b) (searchable w)"

text \<open>
  \<^verbatim>\<open>update_bill\<close>: \<open>Inr None\<close> for the bare \<^verbatim>\<open>return\<close>, \<open>Inr (Some id)\<close> for
  \<^verbatim>\<open>return sb.id\<close>. Reading \<^verbatim>\<open>link\<close> for the keyword argument
  \<^verbatim>\<open>version_link\<close> raises UnboundLocalError when no iteration bound it.
\<close>

definition update_bill ::
  "(string \<Rightarrow> string option) \<Rightarrow> (string \<Rightarrow> metadata \<Rightarrow> string option) \<Rightarrow> bill \<Rightarrow> world
     \<Rightarrow> (error + nat option) \<times> world" where
  "update_bill fetch extract_text b w =
     (case latest_version b of
        Inl e \<Rightarrow> (Inr None, w)
      | Inr latest \<Rightarrow>
          (case link_loop fetch extract_text b (v_links latest) (True, [], None) w of
             (Inl e, w1) \<Rightarrow> (Inl e, w1)
           | (Inr (is_error, raw_text, None), w1) \<Rightarrow> (Inl (UnboundLocalError ''link''), w1)
           | (Inr (is_error, raw_text, Some lk), w1) \<Rightarrow>
               if has_searchable w1 b then (Inl (IntegrityError ''bill_id''), w1)
               else
                 (Inr (Some (next_id w1)),
                  w1\<lparr>searchable := searchable w1 @
                        [\<lparr>sb_id = next_id w1, sb_bill = b_id b, sb_version_link = lk,
                          sb_all_titles = b_title b, sb_raw_text = raw_text,
                          sb_is_error = is_error, sb_search_vector = NoVector\<rparr>],
                     next_id := next_id w1 + 1\<rparr>)))"




subsection \<open>update\<close>

fun update_loop ::
  "(string \<Rightarrow> string option) \<Rightarrow> (string \<Rightarrow> metadata \<Rightarrow> string option) \<Rightarrow> bill list
     \<Rightarrow> nat option list \<Rightarrow> world \<Rightarrow> (error + nat option list) \<times> world" where
  "update_loop fetch extract_text [] ids_to_update w = (Inr ids_to_update, w)"
| "update_loop fetch extract_text (b # rest) ids_to_update w =
     (case update_bill fetch extract_text b w of
        (Inl e, w1) \<Rightarrow> (Inl e, w1)
      | (Inr r, w1) \<Rightarrow> update_loop fetch extract_text rest (ids_to_update @ [r]) w1)"

text \<open>
  The bulk update of lines 234 to 239: the call is recorded with the list it was given,
  and every row whose id is in the list gets its vector recomputed.
\<close>

definition update_search_vectors :: "nat option list \<Rightarrow> world \<Rightarrow> world" where
  "update_search_vectors ids w =
     w\<lparr>vector_updates := vector_updates w @ [ids],
       searchable :=
         map (\<lambda>sb. if Some (sb_id sb) \<in> set ids
                    then sb\<lparr>sb_search_vector := Weighted (sb_all_titles sb) (sb_raw_text sb)\<rparr>
                    else sb)
             (searchable w)\<rparr>"

definition update ::
  "(string \<Rightarrow> string option) \<Rightarrow> (string \<Rightarrow> string option) \<Rightarrow> (string \<Rightarrow> metadata \<Rightarrow> string option)
     \<Rightarrow> string \<Rightarrow> nat \<Rightarrow> world \<Rightarrow> (error + unit) \<times> world" where
  "update abbr_to_jid fetch extract_text state n w =
     (case abbr_to_jid state of
        None \<Rightarrow> (Inl (CollaboratorError ''abbr_to_jid''), w)
      | Some jid \<Rightarrow>
          (let missing_search =
                 take n (filter (\<lambda>b. b_jurisdiction_id b = jid \<and> \<not> has_searchable w b) (bills w));
               w1 = print_line (Selected (length missing_search)) w
           in case update_loop fetch extract_text missing_search [] w1 of
                (Inl e, w2) \<Rightarrow> (Inl e, w2)
              | (Inr ids_to_update, w2) \<Rightarrow>
                  (Inr (),
                   update_search_vectors ids_to_update
                     (print_line (Updating (length ids_to_update)) w2))))"

section \<open>The events checker (tools/scruffy/checkers/events.py)\<close>

text \<open>
  An event document with the keys the checker reads. \<^verbatim>\<open>when\<close> and \<^verbatim>\<open>end\<close> are
  read with \<^verbatim>\<open>event.get\<close> and may be missing; they are times, here seconds as
  integers, and a time that is present is truthy. The id of a related entity may be
  missing too (\<^verbatim>\<open>None\<close>), or an empty string.
\<close>

record entity =
  e_type :: string
  e_id :: "string option"
  e_name :: string

record agenda_item =
  related_entities :: "entity list"

record event =
  ev_id :: string
  ev_when :: "int option"
  ev_end :: "int option"
  ev_agenda :: "agenda_item list"

record Check =
  collection :: string
  ch_id :: string
  tagname :: string
  severity :: string
  ch_data :: "(string \<times> string option) list option"

text \<open>
  Lines 20 to 28, for one related entity. \<^verbatim>\<open>resolve\<close> belongs to the module
  \<^verbatim>\<open>common\<close> and is a parameter; its result \<^verbatim>\<open>wid\<close> is \<open>None\<close> or an id.
\<close>

definition entity_checks ::
  "(string \<Rightarrow> string \<Rightarrow> string option) \<Rightarrow> event \<Rightarrow> entity \<Rightarrow> Check list" where
  "entity_checks resolve ev ent =
     (case e_id ent of
        None \<Rightarrow> []
      | Some i \<Rightarrow>
          if i = [] then []
          else
            (let wid = resolve (e_type ent) i
             in case wid of
                  None \<Rightarrow>
                    [\<lparr>collection = ''events'', ch_id = ev_id ev, tagname = ''bad-related-entity'',
                      severity = ''important'',
                      ch_data = Some [(''id'', wid), (''name'', Some (e_name ent))]\<rparr>]
                | Some x \<Rightarrow> []))"

definition agenda_checks :: "(string \<Rightarrow> string \<Rightarrow> string option) \<Rightarrow> event \<Rightarrow> Check list" where
  "agenda_checks resolve ev =
     concat (map (\<lambda>agenda. concat (map (entity_checks resolve ev) (related_entities agenda)))
                 (ev_agenda ev))"

text \<open>
  The body of the loop over the events: the checks it yields, and the exception that
  ends the generator if one is raised. Comparing a missing \<^verbatim>\<open>when\<close> with a time
  raises TypeError, after the common checks were yielded. \<^verbatim>\<open>common_checks\<close> is a
  parameter.
\<close>

definition event_checks ::
  "(event \<Rightarrow> string \<Rightarrow> string \<Rightarrow> Check list) \<Rightarrow> (string \<Rightarrow> string \<Rightarrow> string option) \<Rightarrow> event
     \<Rightarrow> Check list \<times> error option" where
  "event_checks common_checks resolve ev =
     (let common = common_checks ev ''event'' ''events''
      in case ev_end ev of
           None \<Rightarrow> (common @ agenda_checks resolve ev, None)
         | Some e \<Rightarrow>
             (case ev_when ev of
                None \<Rightarrow> (common, Some (TypeError ''>''))
              | Some t \<Rightarrow>
                  (common
                   @ (if e < t
                      then [\<lparr>collection = ''events'', ch_id = ev_id ev,
                             tagname = ''ends-before-it-starts'', severity = ''important'',
                             ch_data = None\<rparr>]
                      else [])
                   @ agenda_checks resolve ev,
                   None)))"

fun check ::
  "(event \<Rightarrow> string \<Rightarrow> string \<Rightarrow> Check list) \<Rightarrow> (string \<Rightarrow> string \<Rightarrow> string option) \<Rightarrow> event list
     \<Rightarrow> Check list \<times> error option" where
  "check common_checks resolve [] = ([], None)"
| "check common_checks resolve (ev # rest) =
     (case event_checks common_checks resolve ev of
        (cs, Some e) \<Rightarrow> (cs, Some e)
      | (cs, None) \<Rightarrow>
          (case check common_checks resolve rest of (cs', e) \<Rightarrow> (cs @ cs', e)))"

text \<open>
  To state what the checker yields: an entity is unresolved when its id is truthy and
  \<^verbatim>\<open>resolve\<close> maps it to \<^verbatim>\<open>None\<close>; the check expected for such an entity; and the
  events whose agenda the generator gets to, which are those before the first event that
  has an end and no start.
\<close>

definition unresolved :: "(string \<Rightarrow> string \<Rightarrow> string option) \<Rightarrow> entity \<Rightarrow> bool" where
  "unresolved resolve ent =
     (case e_id ent of None \<Rightarrow> False | Some i \<Rightarrow> i \<noteq> [] \<and> resolve (e_type ent) i = None)"

definition bad_related_entity :: "event \<Rightarrow> entity \<Rightarrow> Check" where
  "bad_related_entity ev ent =
     \<lparr>collection = ''events'', ch_id = ev_id ev, tagname = ''bad-related-entity'',
      severity = ''important'', ch_data = Some [(''id'', None), (''name'', Some (e_name ent))]\<rparr>"

definition reached :: "event list \<Rightarrow> event list" where
  "reached evs = takeWhile (\<lambda>ev. \<not> (ev_end ev \<noteq> None \<and> ev_when ev = None)) evs"

section \<open>Concrete inputs\<close>

text \<open>
  A row of the sample file for a bill of Alaska, the abbreviation table that knows
  Alaska only, and a world with click 8, no files, no requests and an empty database.
\<close>

definition ak_row :: "string \<Rightarrow> string \<Rightarrow> version_row" where
  "ak_row mt u =
     \<lparr>m_url = u, m_media_type = mt, m_title = ''An Act'',
      m_jurisdiction_id = ''ocd-jurisdiction/country:us/state:ak/government'',
      r_id = ''1'', r_session = ''2020'', r_identifier = ''HB 1'', r_note = ''Enrolled''\<rparr>"

definition ak_abbr :: "string \<Rightarrow> string option" where
  "ak_abbr j =
     (if j = ''ocd-jurisdiction/country:us/state:ak/government'' then Some ''ak'' else None)"

definition empty_world :: world where
  "empty_world =
     \<lparr>click = Click8, files = Map.empty, requests = [], writes = [], echoed = [], bills = [],
      searchable = [], next_id = 1, vector_updates = []\<rparr>"

text \<open>A network on which nothing can be fetched, and one that serves one document.\<close>

definition no_network :: "string \<Rightarrow> string option" where
  "no_network u = None"

definition one_document :: "string \<Rightarrow> string option" where
  "one_document u = (if u = ''http://a'' then Some ''%PDF'' else None)"

text \<open>
  Three links, a network on which the first and the third can be fetched and the second
  cannot, a network on which only the second can be fetched, and an extractor that finds
  text in the third document only.
\<close>

definition link_A :: link where
  "link_A = \<lparr>l_url = ''http://A'', l_media_type = ''text/html''\<rparr>"

definition link_B :: link where
  "link_B = \<lparr>l_url = ''http://B'', l_media_type = ''application/pdf''\<rparr>"

definition link_C :: link where
  "link_C = \<lparr>l_url = ''http://C'', l_media_type = ''application/msword''\<rparr>"

definition net_AC :: "string \<Rightarrow> string option" where
  "net_AC u = (if u = ''http://A'' then Some ''<p></p>'' else if u = ''http://C'' then Some ''doc'' else None)"


definition text_of_doc :: "string \<Rightarrow> metadata \<Rightarrow> string option" where
  "text_of_doc data m = (if data = ''doc'' then Some ''text'' else Some [])"




text \<open>
  Bills: one with the three versions of the example (the links are on the second), one
  with no version, one whose only version has no link.
\<close>

definition hb1 :: bill where
  "hb1 =
     \<lparr>b_id = 1, b_title = ''An Act'',
      b_jurisdiction_id = ''ocd-jurisdiction/country:us/state:ak/government'',
      b_versions =
        [\<lparr>v_date = ''2020-01-01'', v_note = ''a'', v_links = []\<rparr>,
         \<lparr>v_date = ''2020-01-01'', v_note = ''b'', v_links = [link_A, link_B, link_C]\<rparr>,
         \<lparr>v_date = ''2019-12-31'', v_note = ''z'', v_links = []\<rparr>]\<rparr>"

definition hb2 :: bill where
  "hb2 =
     \<lparr>b_id = 2, b_title = ''Another Act'',
      b_jurisdiction_id = ''ocd-jurisdiction/country:us/state:ak/government'',
      b_versions = []\<rparr>"

definition hb3 :: bill where
  "hb3 =
     \<lparr>b_id = 3, b_title = ''A Third Act'',
      b_jurisdiction_id = ''ocd-jurisdiction/country:us/state:ak/government'',
      b_versions = [\<lparr>v_date = ''2020-02-02'', v_note = ''Introduced'', v_links = []\<rparr>]\<rparr>"

definition ak_jid :: "string \<Rightarrow> string option" where
  "ak_jid state =
     (if state = ''ak'' then Some ''ocd-jurisdiction/country:us/state:ak/government'' else None)"

text \<open>
  An event with four related entities: one without an id, one with an empty id, one that
  resolves and one that does not; a resolver that knows one id; and common checks that
  find nothing.
\<close>

definition committee_hearing :: event where
  "committee_hearing =
     \<lparr>ev_id = ''AKE00000001'', ev_when = Some 1580000000, ev_end = Some 1580003600,
      ev_agenda =
        [\<lparr>related_entities =
            [\<lparr>e_type = ''bill'', e_id = None, e_name = ''HB 1''\<rparr>,
             \<lparr>e_type = ''bill'', e_id = Some [], e_name = ''HB 2''\<rparr>]\<rparr>,
         \<lparr>related_entities =
            [\<lparr>e_type = ''committee'', e_id = Some ''AKC000001'', e_name = ''Finance''\<rparr>,
             \<lparr>e_type = ''bill'', e_id = Some ''AKB00000042'', e_name = ''HB 42''\<rparr>]\<rparr>]\<rparr>"

text \<open>An event with an end and no start, and one related entity that does not resolve.\<close>

definition undated_hearing :: event where
  "undated_hearing =
     \<lparr>ev_id = ''AKE00000002'', ev_when = None, ev_end = Some 1580003600,
      ev_agenda =
        [\<lparr>related_entities =
            [\<lparr>e_type = ''bill'', e_id = Some ''AKB00000042'', e_name = ''HB 42''\<rparr>]\<rparr>]\<rparr>"

definition resolve_finance :: "string \<Rightarrow> string \<Rightarrow> string option" where
  "resolve_finance t i = (if i = ''AKC000001'' then Some ''AKC000001'' else None)"

definition no_common_checks :: "event \<Rightarrow> string \<Rightarrow> string \<Rightarrow> Check list" where
  "no_common_checks ev singular plural = []"

section \<open>Theorems\<close>

subsection \<open>Evaluation of the concrete inputs\<close>

lemma MIMETYPES_None:
  "MIMETYPES mt = None \<longleftrightarrow>
     mt \<notin> {''application/pdf'', ''text/html'', ''application/msword'', ''application/rtf'',
            ''application/vnd.openxmlformats-officedocument.wordprocessingml.document''}"
  by (simp add: MIMETYPES_def)

lemma MIMETYPES_pdf: "MIMETYPES ''application/pdf'' = Some ''pdf''"
  by (simp add: MIMETYPES_def)

lemma MIMETYPES_html: "MIMETYPES ''text/html'' = Some ''html''"
  by (simp add: MIMETYPES_def)

lemma MIMETYPES_plain: "MIMETYPES ''text/plain'' = None"
  by (simp add: MIMETYPES_def)

lemma ak_abbr_row: "ak_abbr (m_jurisdiction_id (ak_row mt u)) = Some ''ak''"
  by (simp add: ak_abbr_def ak_row_def)

lemma cache_path_ak_pdf:
  "cache_path ak_abbr (ak_row ''application/pdf'' u) = Inr ''raw/ak/2020-HB 1-Enrolled.pdf''"
  by (simp add: cache_path_def ak_row_def ak_abbr_def MIMETYPES_pdf)

lemma cache_path_ak_html:
  "cache_path ak_abbr (ak_row ''text/html'' u) = Inr ''raw/ak/2020-HB 1-Enrolled.html''"
  by (simp add: cache_path_def ak_row_def ak_abbr_def MIMETYPES_html)

subsection \<open>The cache path\<close>

text \<open>
  C9. Given that the abbreviation is found, resolving the cache path raises exactly when
  the media type is not one of the five keys of \<^verbatim>\<open>MIMETYPES\<close> (the fifth is the
  media type of docx documents); then \<^verbatim>\<open>download\<close> raises KeyError whatever is on
  disk and leaves everything as it was; and a path that is resolved ends in the
  extension the table gives, never in another one.
\<close>

theorem unknown_media_type_raises:
  assumes "jid_to_abbr (m_jurisdiction_id version) = Some abbr"
  shows "((\<exists>e. cache_path jid_to_abbr version = Inl e) \<longleftrightarrow>
            m_media_type version \<notin> {''application/pdf'', ''text/html'', ''application/msword'',
               ''application/rtf'',
               ''application/vnd.openxmlformats-officedocument.wordprocessingml.document''})
       \<and> (MIMETYPES (m_media_type version) = None \<longrightarrow>
            (\<forall>w. download jid_to_abbr fetch version w = (Inl (KeyError (m_media_type version)), w)))
       \<and> (\<forall>p. cache_path jid_to_abbr version = Inr p \<longrightarrow>
            (\<exists>ext. MIMETYPES (m_media_type version) = Some ext \<and>
               p = ''raw/'' @ abbr @ ''/'' @ r_session version @ ''-'' @ r_identifier version
                    @ ''-'' @ r_note version @ ''.'' @ ext))"
proof (intro conjI allI impI)
  have "(\<exists>e. cache_path jid_to_abbr version = Inl e) \<longleftrightarrow> MIMETYPES (m_media_type version) = None"
    using assms by (simp add: cache_path_def split: option.splits)
  then show "(\<exists>e. cache_path jid_to_abbr version = Inl e) \<longleftrightarrow>
            m_media_type version \<notin> {''application/pdf'', ''text/html'', ''application/msword'',
               ''application/rtf'',
               ''application/vnd.openxmlformats-officedocument.wordprocessingml.document''}"
    by (simp only: MIMETYPES_None)
next
  fix w
  assume "MIMETYPES (m_media_type version) = None"
  then show "download jid_to_abbr fetch version w = (Inl (KeyError (m_media_type version)), w)"
    using assms by (simp add: download_def cache_path_def)
next
  fix p
  assume "cache_path jid_to_abbr version = Inr p"
  then show "\<exists>ext. MIMETYPES (m_media_type version) = Some ext \<and>
               p = ''raw/'' @ abbr @ ''/'' @ r_session version @ ''-'' @ r_identifier version
                    @ ''-'' @ r_note version @ ''.'' @ ext"
    using assms by (auto simp add: cache_path_def split: option.splits)
qed

theorem unknown_media_type_raises_witness:
  "ak_abbr (m_jurisdiction_id (ak_row ''text/plain'' ''http://a'')) = Some ''ak''
   \<and> (\<exists>e. cache_path ak_abbr (ak_row ''text/plain'' ''http://a'') = Inl e)
   \<and> download ak_abbr one_document (ak_row ''text/plain'' ''http://a'')
        (empty_world\<lparr>files := [''raw/ak/2020-HB 1-Enrolled.pdf'' \<mapsto> ''%PDF'']\<rparr>)
      = (Inl (KeyError ''text/plain''),
         empty_world\<lparr>files := [''raw/ak/2020-HB 1-Enrolled.pdf'' \<mapsto> ''%PDF'']\<rparr>)"
proof -
  let ?v = "ak_row ''text/plain'' ''http://a''"
  have h: "ak_abbr (m_jurisdiction_id ?v) = Some ''ak''"
    by (rule ak_abbr_row)
  have mt: "m_media_type ?v = ''text/plain''"
    by (simp add: ak_row_def)
  have n: "MIMETYPES (m_media_type ?v) = None"
    unfolding mt by (rule MIMETYPES_plain)
  note t = unknown_media_type_raises [of ak_abbr ?v "''ak''" one_document, OF h]
  have e: "\<exists>e. cache_path ak_abbr ?v = Inl e"
    using t [THEN conjunct1] n [unfolded MIMETYPES_None] by (rule iffD2)
  have d: "download ak_abbr one_document ?v w = (Inl (KeyError ''text/plain''), w)" for w
    using t [THEN conjunct2, THEN conjunct1, THEN mp, OF n, THEN spec, of w] unfolding mt .
  show ?thesis
    using h e d by (intro conjI)
qed

text \<open>
  C5. Two rows that agree on jurisdiction, session, identifier and note but differ in
  media type resolve to different paths: the path is not a function of these four fields
  alone.
\<close>

theorem cache_path_depends_on_media_type:
  "m_jurisdiction_id (ak_row ''application/pdf'' ''http://a'')
     = m_jurisdiction_id (ak_row ''text/html'' ''http://a'')
   \<and> r_session (ak_row ''application/pdf'' ''http://a'') = r_session (ak_row ''text/html'' ''http://a'')
   \<and> r_identifier (ak_row ''application/pdf'' ''http://a'')
       = r_identifier (ak_row ''text/html'' ''http://a'')
   \<and> r_note (ak_row ''application/pdf'' ''http://a'') = r_note (ak_row ''text/html'' ''http://a'')
   \<and> cache_path ak_abbr (ak_row ''application/pdf'' ''http://a'')
       = Inr ''raw/ak/2020-HB 1-Enrolled.pdf''
   \<and> cache_path ak_abbr (ak_row ''text/html'' ''http://a'') = Inr ''raw/ak/2020-HB 1-Enrolled.html''
   \<and> cache_path ak_abbr (ak_row ''application/pdf'' ''http://a'')
       \<noteq> cache_path ak_abbr (ak_row ''text/html'' ''http://a'')"
proof (intro conjI)
  show "cache_path ak_abbr (ak_row ''application/pdf'' ''http://a'')
       \<noteq> cache_path ak_abbr (ak_row ''text/html'' ''http://a'')"
    unfolding cache_path_ak_pdf cache_path_ak_html by simp
  show "cache_path ak_abbr (ak_row ''application/pdf'' ''http://a'')
       = Inr ''raw/ak/2020-HB 1-Enrolled.pdf''"
    by (rule cache_path_ak_pdf)
  show "cache_path ak_abbr (ak_row ''text/html'' ''http://a'') = Inr ''raw/ak/2020-HB 1-Enrolled.html''"
    by (rule cache_path_ak_html)
qed (simp_all add: ak_row_def)

text \<open>
  C5, amended. The resolved path is a function of the abbreviation, the session, the
  identifier, the note and the extension that \<^verbatim>\<open>MIMETYPES\<close> gives the media type:
  two rows that agree on these resolve to the same path, whatever their other fields.
\<close>

theorem cache_path_function_of_key_and_extension:
  assumes "jid_to_abbr (m_jurisdiction_id v1) = jid_to_abbr (m_jurisdiction_id v2)"
    and "r_session v1 = r_session v2"
    and "r_identifier v1 = r_identifier v2"
    and "r_note v1 = r_note v2"
    and "MIMETYPES (m_media_type v1) = MIMETYPES (m_media_type v2)"
    and "cache_path jid_to_abbr v1 = Inr p"
  shows "cache_path jid_to_abbr v2 = Inr p"
  using assms by (simp add: cache_path_def split: option.splits)

theorem cache_path_function_of_key_and_extension_witness:
  "cache_path ak_abbr (ak_row ''application/pdf'' ''http://a'') = Inr ''raw/ak/2020-HB 1-Enrolled.pdf''
   \<and> cache_path ak_abbr ((ak_row ''application/pdf'' ''http://b'')\<lparr>m_title := ''Another'', r_id := ''2''\<rparr>)
       = Inr ''raw/ak/2020-HB 1-Enrolled.pdf''"
proof -
  let ?v1 = "ak_row ''application/pdf'' ''http://a''"
  let ?v2 = "(ak_row ''application/pdf'' ''http://b'')\<lparr>m_title := ''Another'', r_id := ''2''\<rparr>"
  have p: "cache_path ak_abbr ?v1 = Inr ''raw/ak/2020-HB 1-Enrolled.pdf''"
    by (rule cache_path_ak_pdf)
  have "cache_path ak_abbr ?v2 = Inr ''raw/ak/2020-HB 1-Enrolled.pdf''"
  proof (rule cache_path_function_of_key_and_extension [of ak_abbr ?v1 ?v2])
    show "cache_path ak_abbr ?v1 = Inr ''raw/ak/2020-HB 1-Enrolled.pdf''" by (rule p)
  qed (simp_all add: ak_row_def)
  with p show ?thesis by (intro conjI)
qed

subsection \<open>download\<close>

lemma download_request_fails:
  assumes "cache_path jid_to_abbr version = Inr p"
    and "files w p = None"
    and "fetch (m_url version) = None"
  shows "download jid_to_abbr fetch version w
           = (Inl (AttributeError ''write''), w\<lparr>requests := requests w @ [m_url version]\<rparr>)"
  using assms by (simp add: download_def urlretrieve_def scraper_get_def secho_def)

text \<open>
  C3. A row whose path is not on disk and whose document cannot be fetched: the handler
  of the failed request raises AttributeError, so \<^verbatim>\<open>download\<close> does not return
  \<^verbatim>\<open>(None, None)\<close>. No file is written.
\<close>

theorem download_fetch_failure_raises:
  "download ak_abbr no_network (ak_row ''application/pdf'' ''http://a'') empty_world
     = (Inl (AttributeError ''write''), empty_world\<lparr>requests := [''http://a'']\<rparr>)
   \<and> files (snd (download ak_abbr no_network (ak_row ''application/pdf'' ''http://a'') empty_world))
        ''raw/ak/2020-HB 1-Enrolled.pdf'' = None"
proof -
  have "download ak_abbr no_network (ak_row ''application/pdf'' ''http://a'') empty_world
     = (Inl (AttributeError ''write''),
        empty_world\<lparr>requests := requests empty_world @ [m_url (ak_row ''application/pdf'' ''http://a'')]\<rparr>)"
    by (rule download_request_fails [OF cache_path_ak_pdf]) (simp_all add: empty_world_def no_network_def)
  then show ?thesis by (simp add: empty_world_def ak_row_def)
qed

text \<open>
  C4. Two rows with the same jurisdiction, session, identifier and note, one a pdf and one
  an html document, a network that serves the document and nothing on disk: the second
  call does not find the file of the first, requests the document again and writes a
  second file.
\<close>

theorem download_same_key_fetches_twice:
  "m_jurisdiction_id (ak_row ''application/pdf'' ''http://a'')
     = m_jurisdiction_id (ak_row ''text/html'' ''http://a'')
   \<and> r_session (ak_row ''application/pdf'' ''http://a'') = r_session (ak_row ''text/html'' ''http://a'')
   \<and> r_identifier (ak_row ''application/pdf'' ''http://a'')
       = r_identifier (ak_row ''text/html'' ''http://a'')
   \<and> r_note (ak_row ''application/pdf'' ''http://a'') = r_note (ak_row ''text/html'' ''http://a'')
   \<and> fst (download ak_abbr one_document (ak_row ''application/pdf'' ''http://a'') empty_world)
       = Inr (Some (''raw/ak/2020-HB 1-Enrolled.pdf'', ''%PDF''))
   \<and> fst (download ak_abbr one_document (ak_row ''text/html'' ''http://a'')
        (snd (download ak_abbr one_document (ak_row ''application/pdf'' ''http://a'') empty_world)))
       = Inr (Some (''raw/ak/2020-HB 1-Enrolled.html'', ''%PDF''))
   \<and> writes (snd (download ak_abbr one_document (ak_row ''text/html'' ''http://a'')
        (snd (download ak_abbr one_document (ak_row ''application/pdf'' ''http://a'') empty_world))))
       = [''raw/ak/2020-HB 1-Enrolled.pdf'', ''raw/ak/2020-HB 1-Enrolled.html'']
   \<and> requests (snd (download ak_abbr one_document (ak_row ''text/html'' ''http://a'')
        (snd (download ak_abbr one_document (ak_row ''application/pdf'' ''http://a'') empty_world))))
       = [''http://a'', ''http://a'']"
proof -
  let ?w1 = "empty_world\<lparr>requests := [''http://a''],
               files := [''raw/ak/2020-HB 1-Enrolled.pdf'' \<mapsto> ''%PDF''],
               writes := [''raw/ak/2020-HB 1-Enrolled.pdf'']\<rparr>"
  have u: "m_url (ak_row mt ''http://a'') = ''http://a''" for mt
    by (simp add: ak_row_def)
  have d: "one_document ''http://a'' = Some ''%PDF''"
    by (simp add: one_document_def)
  have r1: "download ak_abbr one_document (ak_row ''application/pdf'' ''http://a'') empty_world
      = (Inr (Some (''raw/ak/2020-HB 1-Enrolled.pdf'', ''%PDF'')), ?w1)"
    unfolding download_def cache_path_ak_pdf
    by (simp add: urlretrieve_def scraper_get_def u d empty_world_def)
  have r2: "download ak_abbr one_document (ak_row ''text/html'' ''http://a'') ?w1
      = (Inr (Some (''raw/ak/2020-HB 1-Enrolled.html'', ''%PDF'')),
         ?w1\<lparr>requests := [''http://a'', ''http://a''],
             files := [''raw/ak/2020-HB 1-Enrolled.pdf'' \<mapsto> ''%PDF'',
                       ''raw/ak/2020-HB 1-Enrolled.html'' \<mapsto> ''%PDF''],
             writes := [''raw/ak/2020-HB 1-Enrolled.pdf'', ''raw/ak/2020-HB 1-Enrolled.html'']\<rparr>)"
    unfolding download_def cache_path_ak_html
    by (simp add: urlretrieve_def scraper_get_def u d empty_world_def)
  show ?thesis
    unfolding r1 snd_conv fst_conv r2 by (simp add: ak_row_def)
qed

text \<open>
  C4, amended. Two rows that resolve to the same path (the same key and media types with
  the same extension): when the path is on disk, each call returns the bytes on disk and
  changes nothing (no request, no write); when it is not and the document of the first
  row can be fetched, the first call returns the fetched bytes, the second call returns
  the same bytes and changes nothing, and the two calls together made one request and one
  write.
\<close>

theorem download_twice:
  assumes "cache_path jid_to_abbr version = Inr p"
    and "cache_path jid_to_abbr version' = Inr p"
  shows "(\<forall>c. files w p = Some c \<longrightarrow>
            download jid_to_abbr fetch version w = (Inr (Some (p, c)), w)
            \<and> download jid_to_abbr fetch version' w = (Inr (Some (p, c)), w))
       \<and> (files w p = None \<and> fetch (m_url version) = Some content \<longrightarrow>
            (let r1 = download jid_to_abbr fetch version w;
                 r2 = download jid_to_abbr fetch version' (snd r1)
             in fst r1 = Inr (Some (p, content)) \<and> fst r2 = Inr (Some (p, content))
                \<and> snd r2 = snd r1
                \<and> files (snd r2) p = Some content
                \<and> writes (snd r2) = writes w @ [p]
                \<and> requests (snd r2) = requests w @ [m_url version]))"
proof (intro conjI allI impI)
  fix c assume "files w p = Some c"
  then show "download jid_to_abbr fetch version w = (Inr (Some (p, c)), w)"
    and "download jid_to_abbr fetch version' w = (Inr (Some (p, c)), w)"
    using assms by (simp_all add: download_def)
next
  assume a: "files w p = None \<and> fetch (m_url version) = Some content"
  let ?w1 = "w\<lparr>requests := requests w @ [m_url version],
               files := (files w)(p \<mapsto> content), writes := writes w @ [p]\<rparr>"
  have r1: "download jid_to_abbr fetch version w = (Inr (Some (p, content)), ?w1)"
    using assms(1) a by (simp add: download_def urlretrieve_def scraper_get_def)
  have r2: "download jid_to_abbr fetch version' ?w1 = (Inr (Some (p, content)), ?w1)"
    using assms(2) by (simp add: download_def)
  show "let r1 = download jid_to_abbr fetch version w;
            r2 = download jid_to_abbr fetch version' (snd r1)
        in fst r1 = Inr (Some (p, content)) \<and> fst r2 = Inr (Some (p, content))
           \<and> snd r2 = snd r1
           \<and> files (snd r2) p = Some content
           \<and> writes (snd r2) = writes w @ [p]
           \<and> requests (snd r2) = requests w @ [m_url version]"
    by (simp add: r1 r2 Let_def)
qed

theorem download_twice_witness:
  "cache_path ak_abbr (ak_row ''application/pdf'' ''http://a'') = Inr ''raw/ak/2020-HB 1-Enrolled.pdf''
   \<and> cache_path ak_abbr (ak_row ''application/pdf'' ''http://b'') = Inr ''raw/ak/2020-HB 1-Enrolled.pdf''
   \<and> files empty_world ''raw/ak/2020-HB 1-Enrolled.pdf'' = None
   \<and> one_document (m_url (ak_row ''application/pdf'' ''http://a'')) = Some ''%PDF''
   \<and> fst (download ak_abbr one_document (ak_row ''application/pdf'' ''http://a'') empty_world)
       = Inr (Some (''raw/ak/2020-HB 1-Enrolled.pdf'', ''%PDF''))
   \<and> fst (download ak_abbr one_document (ak_row ''application/pdf'' ''http://b'')
        (snd (download ak_abbr one_document (ak_row ''application/pdf'' ''http://a'') empty_world)))
       = Inr (Some (''raw/ak/2020-HB 1-Enrolled.pdf'', ''%PDF''))
   \<and> writes (snd (download ak_abbr one_document (ak_row ''application/pdf'' ''http://b'')
        (snd (download ak_abbr one_document (ak_row ''application/pdf'' ''http://a'') empty_world))))
       = [''raw/ak/2020-HB 1-Enrolled.pdf'']
   \<and> requests (snd (download ak_abbr one_document (ak_row ''application/pdf'' ''http://b'')
        (snd (download ak_abbr one_document (ak_row ''application/pdf'' ''http://a'') empty_world))))
       = [''http://a'']"
proof -
  let ?v = "ak_row ''application/pdf'' ''http://a''"
  let ?v' = "ak_row ''application/pdf'' ''http://b''"
  let ?p = "''raw/ak/2020-HB 1-Enrolled.pdf''"
  have h1: "cache_path ak_abbr ?v = Inr ?p" by (rule cache_path_ak_pdf)
  have h1': "cache_path ak_abbr ?v' = Inr ?p" by (rule cache_path_ak_pdf)
  have h2: "files empty_world ?p = None" by (simp add: empty_world_def)
  have h3: "one_document (m_url ?v) = Some ''%PDF''" by (simp add: one_document_def ak_row_def)
  have u: "m_url ?v = ''http://a''" by (simp add: ak_row_def)
  have e: "writes empty_world = []" "requests empty_world = []" by (simp_all add: empty_world_def)
  note t = download_twice [of ak_abbr ?v ?p ?v' empty_world one_document "''%PDF''", OF h1 h1',
      THEN conjunct2, THEN mp, OF conjI [OF h2 h3], unfolded Let_def u e append_Nil]
  note t1 = t [THEN conjunct1]
  note t2 = t [THEN conjunct2, THEN conjunct1]
  note t3 = t [THEN conjunct2, THEN conjunct2, THEN conjunct2, THEN conjunct2, THEN conjunct1]
  note t4 = t [THEN conjunct2, THEN conjunct2, THEN conjunct2, THEN conjunct2, THEN conjunct2]
  from h1 h1' h2 h3 t1 t2 t3 t4 show ?thesis by (intro conjI)
qed

subsection \<open>The latest version\<close>

lemma precedes_refl: "precedes a a"
  by (simp add: precedes_def)

lemma precedes_total: "precedes a b \<or> precedes b a"
  by (auto simp add: precedes_def)

lemma precedes_trans: "precedes a b \<Longrightarrow> precedes b c \<Longrightarrow> precedes a c"
  by (auto simp add: precedes_def)

lemma set_insert_version: "set (insert_version v xs) = insert v (set xs)"
  by (induction xs) auto

lemma set_order_by_date_note: "set (order_by_date_note vs) = set vs"
  by (induction vs) (simp_all add: set_insert_version)

lemma insert_version_first:
  assumes "\<forall>u\<in>set (x # xs). precedes x u"
    and "insert_version v (x # xs) = y # ys"
  shows "\<forall>u\<in>set (v # x # xs). precedes y u"
proof (cases "precedes v x")
  case True
  then have "y = v" using assms(2) by simp
  then show ?thesis using True assms(1) precedes_refl precedes_trans by auto
next
  case False
  then have "y = x" using assms(2) by simp
  moreover have "precedes x v" using False precedes_total by blast
  ultimately show ?thesis using assms(1) by auto
qed

lemma order_by_first:
  "order_by_date_note vs = y # ys \<Longrightarrow> \<forall>u\<in>set vs. precedes y u"
proof (induction vs arbitrary: y ys)
  case Nil
  then show ?case by simp
next
  case (Cons v vs)
  show ?case
  proof (cases "order_by_date_note vs")
    case Nil
    then have "vs = []" using set_order_by_date_note [of vs] by simp
    then show ?thesis using Cons.prems precedes_refl by simp
  next
    case (Cons x xs)
    then have ih: "\<forall>u\<in>set vs. precedes x u" using Cons.IH by simp
    have "set (x # xs) = set vs" using Cons set_order_by_date_note [of vs] by simp
    then have a: "\<forall>u\<in>set (x # xs). precedes x u" using ih by simp
    have b: "insert_version v (x # xs) = y # ys" using Cons.prems Cons by simp
    have c: "\<forall>u\<in>set (v # x # xs). precedes y u" by (rule insert_version_first [OF a b])
    have e: "set (v # vs) = set (v # x # xs)" using \<open>set (x # xs) = set vs\<close> by simp
    show ?thesis unfolding e by (rule c)
  qed
qed

lemma latest_version_Nil: "b_versions b = [] \<Longrightarrow> latest_version b = Inl IndexError"
  by (simp add: latest_version_def)

lemma latest_version_Cons:
  assumes "b_versions b \<noteq> []"
  shows "\<exists>v. latest_version b = Inr v \<and> v \<in> set (b_versions b)
           \<and> (\<forall>u\<in>set (b_versions b). precedes v u)"
proof (cases "order_by_date_note (b_versions b)")
  case Nil
  then show ?thesis using assms set_order_by_date_note [of "b_versions b"] by simp
next
  case (Cons y ys)
  have "y \<in> set (b_versions b)"
    using Cons set_order_by_date_note [of "b_versions b"] by auto
  moreover have "\<forall>u\<in>set (b_versions b). precedes y u"
    by (rule order_by_first [OF Cons])
  moreover have "latest_version b = Inr y"
    by (simp add: latest_version_def Cons)
  ultimately show ?thesis by simp
qed

lemma update_bill_no_version:
  "b_versions b = [] \<Longrightarrow> update_bill fetch extract_text b w = (Inr None, w)"
  by (simp add: update_bill_def latest_version_def)

lemma latest_version_example:
  "latest_version
     (b\<lparr>b_versions :=
          [\<lparr>v_date = ''2020-01-01'', v_note = ''a'', v_links = la\<rparr>,
           \<lparr>v_date = ''2020-01-01'', v_note = ''b'', v_links = lb\<rparr>,
           \<lparr>v_date = ''2019-12-31'', v_note = ''z'', v_links = lz\<rparr>]\<rparr>)
   = Inr \<lparr>v_date = ''2020-01-01'', v_note = ''b'', v_links = lb\<rparr>"
  by (simp add: latest_version_def precedes_def)

text \<open>
  C6. A bill with no version: line 78 raises IndexError and \<^verbatim>\<open>update_bill\<close> returns
  without a record and without touching anything. A bill with versions: the version
  selected is one of them, and every version has an earlier date, or the same date and
  a note that is not greater. The three versions of the example select the one dated
  2020-01-01 with note b.
\<close>

theorem latest_version_is_maximal:
  "(b_versions b = [] \<longrightarrow>
      latest_version b = Inl IndexError \<and> update_bill fetch extract_text b w = (Inr None, w))
   \<and> (b_versions b \<noteq> [] \<longrightarrow>
        (\<exists>v. latest_version b = Inr v \<and> v \<in> set (b_versions b)
           \<and> (\<forall>u\<in>set (b_versions b).
                 v_date u < v_date v \<or> (v_date v = v_date u \<and> v_note u \<le> v_note v))))
   \<and> latest_version
        (b'\<lparr>b_versions :=
             [\<lparr>v_date = ''2020-01-01'', v_note = ''a'', v_links = la\<rparr>,
              \<lparr>v_date = ''2020-01-01'', v_note = ''b'', v_links = lb\<rparr>,
              \<lparr>v_date = ''2019-12-31'', v_note = ''z'', v_links = lz\<rparr>]\<rparr>)
       = Inr \<lparr>v_date = ''2020-01-01'', v_note = ''b'', v_links = lb\<rparr>"
proof (intro conjI impI)
  assume "b_versions b = []"
  then show "latest_version b = Inl IndexError"
    and "update_bill fetch extract_text b w = (Inr None, w)"
    by (simp_all add: latest_version_Nil update_bill_no_version)
next
  assume "b_versions b \<noteq> []"
  then show "\<exists>v. latest_version b = Inr v \<and> v \<in> set (b_versions b)
           \<and> (\<forall>u\<in>set (b_versions b).
                 v_date u < v_date v \<or> (v_date v = v_date u \<and> v_note u \<le> v_note v))"
    using latest_version_Cons [of b] by (simp add: precedes_def)
next
  show "latest_version
        (b'\<lparr>b_versions :=
             [\<lparr>v_date = ''2020-01-01'', v_note = ''a'', v_links = la\<rparr>,
              \<lparr>v_date = ''2020-01-01'', v_note = ''b'', v_links = lb\<rparr>,
              \<lparr>v_date = ''2019-12-31'', v_note = ''z'', v_links = lz\<rparr>]\<rparr>)
       = Inr \<lparr>v_date = ''2020-01-01'', v_note = ''b'', v_links = lb\<rparr>"
    by (rule latest_version_example)
qed

theorem latest_version_is_maximal_witness:
  "b_versions hb2 = []
   \<and> update_bill net_AC text_of_doc hb2 empty_world = (Inr None, empty_world)
   \<and> b_versions hb1 \<noteq> []
   \<and> (\<exists>v. latest_version hb1 = Inr v \<and> v \<in> set (b_versions hb1))
   \<and> latest_version hb1
       = Inr \<lparr>v_date = ''2020-01-01'', v_note = ''b'', v_links = [link_A, link_B, link_C]\<rparr>"
proof -
  note t2 = latest_version_is_maximal [where b = hb2 and fetch = net_AC
      and extract_text = text_of_doc and w = empty_world]
  note t1 = latest_version_is_maximal [where b = hb1 and b' = hb1 and la = "[]"
      and lb = "[link_A, link_B, link_C]" and lz = "[]"]
  have e: "b_versions hb2 = []" by (simp add: hb2_def)
  have n: "b_versions hb1 \<noteq> []" by (simp add: hb1_def)
  have same: "hb1\<lparr>b_versions :=
             [\<lparr>v_date = ''2020-01-01'', v_note = ''a'', v_links = []\<rparr>,
              \<lparr>v_date = ''2020-01-01'', v_note = ''b'', v_links = [link_A, link_B, link_C]\<rparr>,
              \<lparr>v_date = ''2019-12-31'', v_note = ''z'', v_links = []\<rparr>]\<rparr> = hb1"
    by (simp add: hb1_def)
  have a: "update_bill net_AC text_of_doc hb2 empty_world = (Inr None, empty_world)"
    using t2 [THEN conjunct1, THEN mp, OF e] by (rule conjunct2)
  have b: "\<exists>v. latest_version hb1 = Inr v \<and> v \<in> set (b_versions hb1)"
    using t1 [THEN conjunct2, THEN conjunct1, THEN mp, OF n] by auto
  have c: "latest_version hb1
       = Inr \<lparr>v_date = ''2020-01-01'', v_note = ''b'', v_links = [link_A, link_B, link_C]\<rparr>"
    using t1 [THEN conjunct2, THEN conjunct2] unfolding same .
  from e a n b c show ?thesis by (intro conjI)
qed

subsection \<open>The loop over the links\<close>





















lemma update_bill_no_links:
  assumes "latest_version b = Inr latest" and "v_links latest = []"
  shows "update_bill fetch extract_text b w = (Inl (UnboundLocalError ''link''), w)"
  using assms by (simp add: update_bill_def)

lemma latest_version_hb3:
  "latest_version hb3 = Inr \<lparr>v_date = ''2020-02-02'', v_note = ''Introduced'', v_links = []\<rparr>"
  by (simp add: latest_version_def hb3_def)

text \<open>
  C2. A bill whose only version has no link: the loop body never runs, \<^verbatim>\<open>link\<close> is
  unbound when the record is built, and \<^verbatim>\<open>update_bill\<close> raises UnboundLocalError
  instead of creating a record.
\<close>

theorem update_bill_zero_links_raises:
  "b_versions hb3 \<noteq> []
   \<and> update_bill fetch extract_text hb3 empty_world = (Inl (UnboundLocalError ''link''), empty_world)
   \<and> searchable (snd (update_bill fetch extract_text hb3 empty_world)) = []"
proof -
  have u: "update_bill fetch extract_text hb3 empty_world
             = (Inl (UnboundLocalError ''link''), empty_world)"
    by (rule update_bill_no_links [OF latest_version_hb3]) simp
  show ?thesis
    unfolding u by (simp add: hb3_def empty_world_def)
qed

subsection \<open>update\<close>

text \<open>
  A run of \<^verbatim>\<open>update\<close> that completes calls the bulk update once, after the loop,
  with a list that has one entry for every bill selected, skipped or not.
\<close>

lemma link_loop_vector_updates:
  "vector_updates (snd (link_loop fetch extract_text b links (is_error, raw_text, bound) w))
     = vector_updates w"
proof (induction links arbitrary: is_error raw_text bound w)
  case Nil
  then show ?case by simp
next
  case (Cons lk rest)
  then show ?case
    by (cases "click w")
      (auto simp add: scraper_get_def secho_def print_line_def split: option.splits)
qed

lemma update_bill_vector_updates:
  "vector_updates (snd (update_bill fetch extract_text b w)) = vector_updates w"
proof (cases "latest_version b")
  case (Inl e)
  then show ?thesis by (simp add: update_bill_def)
next
  case (Inr latest)
  obtain r w' where
    r: "link_loop fetch extract_text b (v_links latest) (True, [], None) w = (r, w')"
    by (cases "link_loop fetch extract_text b (v_links latest) (True, [], None) w")
  have "vector_updates w' = vector_updates w"
    using link_loop_vector_updates [of fetch extract_text b "v_links latest" True "[]" None w] r
    by simp
  then show ?thesis
    by (simp add: update_bill_def Inr r split: sum.splits prod.splits option.splits)
qed

lemma update_loop_entries:
  assumes "update_loop fetch extract_text bs ids w = (Inr ids', w')"
  shows "length ids' = length ids + length bs \<and> vector_updates w' = vector_updates w"
  using assms
proof (induction bs arbitrary: ids w)
  case Nil
  then show ?case by simp
next
  case (Cons b rest)
  obtain r w1 where u: "update_bill fetch extract_text b w = (r, w1)"
    by (cases "update_bill fetch extract_text b w")
  have v: "vector_updates w1 = vector_updates w"
    using update_bill_vector_updates [of fetch extract_text b w] u by simp
  show ?case
  proof (cases r)
    case (Inl e)
    then show ?thesis using Cons.prems u by simp
  next
    case (Inr x)
    then have "update_loop fetch extract_text rest (ids @ [x]) w1 = (Inr ids', w')"
      using Cons.prems u by simp
    from Cons.IH [OF this] show ?thesis using v by simp
  qed
qed

lemma update_issues_one_recomputation:
  assumes "update abbr_to_jid fetch extract_text state n w = (Inr (), w')"
    and "abbr_to_jid state = Some jid"
  shows "\<exists>ids. vector_updates w' = vector_updates w @ [ids]
           \<and> length ids =
               length (take n (filter (\<lambda>b. b_jurisdiction_id b = jid \<and> \<not> has_searchable w b) (bills w)))"
proof -
  let ?sel = "take n (filter (\<lambda>b. b_jurisdiction_id b = jid \<and> \<not> has_searchable w b) (bills w))"
  let ?w1 = "print_line (Selected (length ?sel)) w"
  obtain r w2 where l: "update_loop fetch extract_text ?sel [] ?w1 = (r, w2)"
    by (cases "update_loop fetch extract_text ?sel [] ?w1")
  show ?thesis
  proof (cases r)
    case (Inl e)
    then show ?thesis using assms l by (simp add: update_def Let_def)
  next
    case (Inr ids)
    have e: "length ids = length ?sel" "vector_updates w2 = vector_updates w"
      using update_loop_entries [of fetch extract_text ?sel "[]" ?w1 ids w2] l Inr
      by (simp_all add: print_line_def)
    have "w' = update_search_vectors ids (print_line (Updating (length ids)) w2)"
      using assms l Inr by (simp add: update_def Let_def)
    then have "vector_updates w' = vector_updates w @ [ids]"
      using e by (simp add: update_search_vectors_def print_line_def)
    then show ?thesis using e by blast
  qed
qed

text \<open>
  C8. One bill of the state, without a version: \<^verbatim>\<open>update_bill\<close> returns
  \<^verbatim>\<open>None\<close>, which is appended to \<^verbatim>\<open>ids_to_update\<close>. The bulk update is called
  once, with a list that holds an entry for the skipped bill, and the run announces one
  search vector although no record was created.
\<close>

theorem update_lists_skipped_bill:
  "vector_updates (snd (update ak_jid fetch extract_text ''ak'' 100 (empty_world\<lparr>bills := [hb2]\<rparr>)))
     = [[None]]
   \<and> searchable (snd (update ak_jid fetch extract_text ''ak'' 100 (empty_world\<lparr>bills := [hb2]\<rparr>)))
     = []
   \<and> echoed (snd (update ak_jid fetch extract_text ''ak'' 100 (empty_world\<lparr>bills := [hb2]\<rparr>)))
     = [Selected 1, Updating 1]"
proof -
  have j: "ak_jid ''ak'' = Some ''ocd-jurisdiction/country:us/state:ak/government''"
    by (simp add: ak_jid_def)
  have h1: "b_jurisdiction_id hb2 = ''ocd-jurisdiction/country:us/state:ak/government''"
    by (simp add: hb2_def)
  have h2: "\<not> has_searchable (empty_world\<lparr>bills := [hb2]\<rparr>) hb2"
    by (simp add: has_searchable_def empty_world_def)
  have v: "b_versions hb2 = []" by (simp add: hb2_def)
  have u: "update ak_jid fetch extract_text ''ak'' 100 (empty_world\<lparr>bills := [hb2]\<rparr>)
      = (Inr (),
         update_search_vectors [None]
           (print_line (Updating 1) (print_line (Selected 1) (empty_world\<lparr>bills := [hb2]\<rparr>))))"
    by (simp add: update_def j h1 h2 update_bill_no_version [OF v])
  show ?thesis
    unfolding u by (simp add: update_search_vectors_def print_line_def empty_world_def)
qed

subsection \<open>sample\<close>

lemma sample_status_thresholds:
  "(sample_status missing empty' = Red \<longleftrightarrow> 0 < empty' \<or> 10 < missing)
   \<and> (sample_status missing empty' = Yellow \<longleftrightarrow> 0 < missing \<and> \<not> (0 < empty' \<or> 10 < missing))
   \<and> (sample_status missing empty' = Green \<longleftrightarrow> missing = 0 \<and> empty' = 0)"
  by (simp add: sample_status_def)

text \<open>
  C7. A sample file of one row whose document is not on disk and cannot be fetched:
  \<^verbatim>\<open>download\<close> raises in its handler, nothing in \<^verbatim>\<open>sample\<close> catches it, and the
  run ends with AttributeError before a status is decided or a result returned.
\<close>

theorem sample_unfetchable_row_raises:
  "sample ak_abbr no_network extract_text [ak_row ''application/pdf'' ''http://a''] quiet empty_world
     = (Inl (AttributeError ''write''), empty_world\<lparr>requests := [''http://a'']\<rparr>)"
proof -
  have d: "download ak_abbr no_network (ak_row ''application/pdf'' ''http://a'') empty_world
     = (Inl (AttributeError ''write''),
        empty_world\<lparr>requests := requests empty_world @ [m_url (ak_row ''application/pdf'' ''http://a'')]\<rparr>)"
    by (rule download_request_fails [OF cache_path_ak_pdf]) (simp_all add: empty_world_def no_network_def)
  show ?thesis
    unfolding sample_def by (simp add: d) (simp add: empty_world_def ak_row_def)
qed

subsection \<open>The events checker\<close>

lemma entity_checks_unresolved:
  "entity_checks resolve ev ent =
     (if unresolved resolve ent then [bad_related_entity ev ent] else [])"
  by (auto simp add: entity_checks_def unresolved_def bad_related_entity_def Let_def split: option.splits)

lemma entities_checks_unresolved:
  "concat (map (entity_checks resolve ev) ents)
     = map (bad_related_entity ev) (filter (unresolved resolve) ents)"
  by (induction ents) (simp_all add: entity_checks_unresolved)

lemma agenda_checks_unresolved:
  "agenda_checks resolve ev =
     map (bad_related_entity ev)
       (filter (unresolved resolve) (concat (map related_entities (ev_agenda ev))))"
  by (simp add: agenda_checks_def entities_checks_unresolved map_concat filter_concat comp_def)

lemma tagname_bad_related_entity: "tagname (bad_related_entity ev ent) = ''bad-related-entity''"
  by (simp add: bad_related_entity_def)

lemma filter_agenda_checks:
  "filter (\<lambda>c. tagname c = ''bad-related-entity'') (agenda_checks resolve ev)
     = agenda_checks resolve ev"
  by (simp add: agenda_checks_unresolved filter_map comp_def tagname_bad_related_entity)

lemma event_checks_bad:
  assumes "\<forall>c\<in>set (common_checks ev ''event'' ''events''). tagname c \<noteq> ''bad-related-entity''"
  shows "filter (\<lambda>c. tagname c = ''bad-related-entity'') (fst (event_checks common_checks resolve ev))
           = (if ev_end ev \<noteq> None \<and> ev_when ev = None then [] else agenda_checks resolve ev)"
proof -
  have c: "filter (\<lambda>c. tagname c = ''bad-related-entity'') (common_checks ev ''event'' ''events'') = []"
    using assms by (simp add: filter_empty_conv)
  show ?thesis
    by (simp add: event_checks_def Let_def c filter_agenda_checks split: option.splits)
qed

lemma event_checks_error:
  "snd (event_checks common_checks resolve ev) = None \<longleftrightarrow> \<not> (ev_end ev \<noteq> None \<and> ev_when ev = None)"
  by (simp add: event_checks_def Let_def split: option.splits)

lemma check_bad:
  assumes "\<forall>ev\<in>set evs. \<forall>c\<in>set (common_checks ev ''event'' ''events'').
             tagname c \<noteq> ''bad-related-entity''"
  shows "filter (\<lambda>c. tagname c = ''bad-related-entity'') (fst (check common_checks resolve evs))
           = concat (map (agenda_checks resolve) (reached evs))"
  using assms
proof (induction evs)
  case Nil
  then show ?case by (simp add: reached_def)
next
  case (Cons ev rest)
  obtain cs e where r: "event_checks common_checks resolve ev = (cs, e)"
    by (cases "event_checks common_checks resolve ev")
  have f: "filter (\<lambda>c. tagname c = ''bad-related-entity'') cs
           = (if ev_end ev \<noteq> None \<and> ev_when ev = None then [] else agenda_checks resolve ev)"
    using event_checks_bad [where common_checks = common_checks and ev = ev and resolve = resolve]
      Cons.prems r by simp
  have er: "e = None \<longleftrightarrow> \<not> (ev_end ev \<noteq> None \<and> ev_when ev = None)"
    using event_checks_error [of common_checks resolve ev] r by simp
  show ?case
  proof (cases e)
    case None
    obtain cs' e' where r': "check common_checks resolve rest = (cs', e')"
      by (cases "check common_checks resolve rest")
    have ih: "filter (\<lambda>c. tagname c = ''bad-related-entity'') cs'
           = concat (map (agenda_checks resolve) (reached rest))"
      using Cons.IH Cons.prems r' by simp
    show ?thesis
      using None er f ih by (auto simp add: r r' reached_def)
  next
    case (Some x)
    then show ?thesis
      using er f by (auto simp add: r reached_def)
  qed
qed

lemma reached_all:
  "list_all (\<lambda>ev. ev_end ev = None \<or> ev_when ev \<noteq> None) evs \<Longrightarrow> reached evs = evs"
  by (induction evs) (auto simp add: reached_def)

lemma event_checks_snd:
  "snd (event_checks common_checks resolve ev)
     = (if ev_end ev \<noteq> None \<and> ev_when ev = None then Some (TypeError ''>'') else None)"
  by (simp add: event_checks_def Let_def split: option.splits)

lemma check_snd:
  "snd (check common_checks resolve evs)
     = (if list_all (\<lambda>ev. ev_end ev = None \<or> ev_when ev \<noteq> None) evs then None
        else Some (TypeError ''>''))"
proof (induction evs)
  case Nil
  then show ?case by simp
next
  case (Cons ev rest)
  obtain cs e where r: "event_checks common_checks resolve ev = (cs, e)"
    by (cases "event_checks common_checks resolve ev")
  have e: "e = (if ev_end ev \<noteq> None \<and> ev_when ev = None then Some (TypeError ''>'') else None)"
    using event_checks_snd [of common_checks resolve ev] r by simp
  obtain cs' e' where r': "check common_checks resolve rest = (cs', e')"
    by (cases "check common_checks resolve rest")
  show ?case
    using Cons.IH e by (auto simp add: r r')
qed

text \<open>
  C10. An event with an end and no start, whose agenda has an entity with a truthy id
  that \<^verbatim>\<open>resolve\<close> maps to \<^verbatim>\<open>None\<close>: the comparison of line 11 raises TypeError
  before the loop over the agenda, and no check is yielded for the entity.
\<close>

theorem unresolved_entity_without_check:
  "ev_agenda undated_hearing
     = [\<lparr>related_entities =
           [\<lparr>e_type = ''bill'', e_id = Some ''AKB00000042'', e_name = ''HB 42''\<rparr>]\<rparr>]
   \<and> unresolved resolve_finance \<lparr>e_type = ''bill'', e_id = Some ''AKB00000042'', e_name = ''HB 42''\<rparr>
   \<and> check no_common_checks resolve_finance [undated_hearing] = ([], Some (TypeError ''>''))"
  by (simp add: undated_hearing_def unresolved_def resolve_finance_def event_checks_def
      no_common_checks_def)

text \<open>
  C10, amended. Given that the common checks yield no check tagged bad-related-entity:
  the checks with that tag that the generator yields are, in order, one for every
  unresolved related entity (truthy id that \<^verbatim>\<open>resolve\<close> maps to \<^verbatim>\<open>None\<close>) of the
  agenda of every event it gets to, and no other; the data of each holds \<^verbatim>\<open>None\<close>
  under the key id, while the id of the entity itself is not \<^verbatim>\<open>None\<close>. The generator
  gets to every event, and ends without an exception, when no event has an end without a
  start; otherwise it gets to the events before the first such event and ends with
  TypeError.
\<close>

theorem bad_related_entity_checks:
  assumes "\<forall>ev\<in>set evs. \<forall>c\<in>set (common_checks ev ''event'' ''events'').
             tagname c \<noteq> ''bad-related-entity''"
  shows "filter (\<lambda>c. tagname c = ''bad-related-entity'') (fst (check common_checks resolve evs))
           = concat (map (\<lambda>ev. map (bad_related_entity ev)
                        (filter (unresolved resolve) (concat (map related_entities (ev_agenda ev)))))
                      (reached evs))
       \<and> (\<forall>c\<in>set (fst (check common_checks resolve evs)).
             tagname c = ''bad-related-entity'' \<longrightarrow>
               (\<exists>d. ch_data c = Some d \<and> map_of d ''id'' = Some None))
       \<and> (\<forall>ev ent. unresolved resolve ent \<longrightarrow>
             e_id ent \<noteq> None
             \<and> ch_data (bad_related_entity ev ent) = Some [(''id'', None), (''name'', Some (e_name ent))])
       \<and> (list_all (\<lambda>ev. ev_end ev = None \<or> ev_when ev \<noteq> None) evs \<longrightarrow>
             reached evs = evs \<and> snd (check common_checks resolve evs) = None)
       \<and> (\<not> list_all (\<lambda>ev. ev_end ev = None \<or> ev_when ev \<noteq> None) evs \<longrightarrow>
             snd (check common_checks resolve evs) = Some (TypeError ''>''))"
proof (intro conjI ballI allI impI)
  show eq: "filter (\<lambda>c. tagname c = ''bad-related-entity'') (fst (check common_checks resolve evs))
           = concat (map (\<lambda>ev. map (bad_related_entity ev)
                        (filter (unresolved resolve) (concat (map related_entities (ev_agenda ev)))))
                      (reached evs))"
    using check_bad [where common_checks = common_checks and evs = evs and resolve = resolve, OF assms] by (simp add: agenda_checks_unresolved [abs_def])
  fix c
  assume "c \<in> set (fst (check common_checks resolve evs))" and "tagname c = ''bad-related-entity''"
  then have "c \<in> set (filter (\<lambda>c. tagname c = ''bad-related-entity'')
                         (fst (check common_checks resolve evs)))"
    by simp
  then obtain ev ent where "c = bad_related_entity ev ent"
    unfolding eq by auto
  then show "\<exists>d. ch_data c = Some d \<and> map_of d ''id'' = Some None"
    by (simp add: bad_related_entity_def)
next
  fix ev ent
  assume "unresolved resolve ent"
  then show "e_id ent \<noteq> None"
    by (simp add: unresolved_def split: option.splits)
next
  fix ev ent
  show "ch_data (bad_related_entity ev ent) = Some [(''id'', None), (''name'', Some (e_name ent))]"
    by (simp add: bad_related_entity_def)
next
  assume a: "list_all (\<lambda>ev. ev_end ev = None \<or> ev_when ev \<noteq> None) evs"
  then show "reached evs = evs" by (rule reached_all)
  show "snd (check common_checks resolve evs) = None"
    using a by (simp add: check_snd)
next
  assume "\<not> list_all (\<lambda>ev. ev_end ev = None \<or> ev_when ev \<noteq> None) evs"
  then show "snd (check common_checks resolve evs) = Some (TypeError ''>'')"
    by (simp add: check_snd)
qed

theorem bad_related_entity_checks_witness:
  "filter (\<lambda>c. tagname c = ''bad-related-entity'')
     (fst (check no_common_checks resolve_finance [committee_hearing]))
   = [\<lparr>collection = ''events'', ch_id = ''AKE00000001'', tagname = ''bad-related-entity'',
       severity = ''important'', ch_data = Some [(''id'', None), (''name'', Some ''HB 42'')]\<rparr>]
   \<and> snd (check no_common_checks resolve_finance [committee_hearing]) = None
   \<and> filter (\<lambda>c. tagname c = ''bad-related-entity'')
     (fst (check no_common_checks resolve_finance [committee_hearing, undated_hearing]))
   = [\<lparr>collection = ''events'', ch_id = ''AKE00000001'', tagname = ''bad-related-entity'',
       severity = ''important'', ch_data = Some [(''id'', None), (''name'', Some ''HB 42'')]\<rparr>]
   \<and> snd (check no_common_checks resolve_finance [committee_hearing, undated_hearing])
       = Some (TypeError ''>'')"
proof -
  have h: "\<forall>ev\<in>set [committee_hearing]. \<forall>c\<in>set (no_common_checks ev ''event'' ''events'').
             tagname c \<noteq> ''bad-related-entity''"
    by (simp add: no_common_checks_def)
  have h': "\<forall>ev\<in>set [committee_hearing, undated_hearing].
              \<forall>c\<in>set (no_common_checks ev ''event'' ''events''). tagname c \<noteq> ''bad-related-entity''"
    by (simp add: no_common_checks_def)
  have r: "reached [committee_hearing] = [committee_hearing]"
    by (simp add: reached_def committee_hearing_def)
  have r': "reached [committee_hearing, undated_hearing] = [committee_hearing]"
    by (simp add: reached_def committee_hearing_def undated_hearing_def)
  have u: "filter (unresolved resolve_finance) (concat (map related_entities (ev_agenda committee_hearing)))
      = [\<lparr>e_type = ''bill'', e_id = Some ''AKB00000042'', e_name = ''HB 42''\<rparr>]"
    by (simp add: committee_hearing_def unresolved_def resolve_finance_def)
  have b: "bad_related_entity committee_hearing
             \<lparr>e_type = ''bill'', e_id = Some ''AKB00000042'', e_name = ''HB 42''\<rparr>
      = \<lparr>collection = ''events'', ch_id = ''AKE00000001'', tagname = ''bad-related-entity'',
       severity = ''important'', ch_data = Some [(''id'', None), (''name'', Some ''HB 42'')]\<rparr>"
    by (simp add: bad_related_entity_def committee_hearing_def)
  have ok: "list_all (\<lambda>ev. ev_end ev = None \<or> ev_when ev \<noteq> None) [committee_hearing]"
    by (simp add: committee_hearing_def)
  have nok: "\<not> list_all (\<lambda>ev. ev_end ev = None \<or> ev_when ev \<noteq> None)
                 [committee_hearing, undated_hearing]"
    by (simp add: undated_hearing_def)
  note t = bad_related_entity_checks [where common_checks = no_common_checks
        and evs = "[committee_hearing]" and resolve = resolve_finance, OF h]
  note t' = bad_related_entity_checks [where common_checks = no_common_checks
        and evs = "[committee_hearing, undated_hearing]" and resolve = resolve_finance, OF h']
  have a: "filter (\<lambda>c. tagname c = ''bad-related-entity'')
     (fst (check no_common_checks resolve_finance [committee_hearing]))
   = [\<lparr>collection = ''events'', ch_id = ''AKE00000001'', tagname = ''bad-related-entity'',
       severity = ''important'', ch_data = Some [(''id'', None), (''name'', Some ''HB 42'')]\<rparr>]"
    using t [THEN conjunct1] by (simp add: r u b)
  have a': "filter (\<lambda>c. tagname c = ''bad-related-entity'')
     (fst (check no_common_checks resolve_finance [committee_hearing, undated_hearing]))
   = [\<lparr>collection = ''events'', ch_id = ''AKE00000001'', tagname = ''bad-related-entity'',
       severity = ''important'', ch_data = Some [(''id'', None), (''name'', Some ''HB 42'')]\<rparr>]"
    using t' [THEN conjunct1] by (simp add: r' u b)
  note c = t [THEN conjunct2, THEN conjunct2, THEN conjunct2, THEN conjunct1, THEN mp, OF ok,
      THEN conjunct2]
  note c' = t' [THEN conjunct2, THEN conjunct2, THEN conjunct2, THEN conjunct2, THEN mp, OF nok]
  from a c a' c' show ?thesis by (intro conjI)
qed

end
